theory Spec2Isabelle
  imports Main "HOL-Library.Word" "HOL-Library.Sublist"
begin

unbundle bit_operations_syntax

section \<open>Color detection (detect.go)\<close>

text \<open>
  Go strings are byte sequences, so a string is a \<open>char list\<close> and \<open>len\<close> counts its
  elements. What \<open>isColorEnabled\<close> reads from the process is collected in one record:
  the package variables \<open>forceColors\<close> (a \<open>*bool\<close>, \<open>nil\<close> is \<open>None\<close>) and \<open>noColor\<close>,
  the environment (\<open>os.Getenv\<close> answers the empty string for an unset variable),
  \<open>runtime.GOOS\<close>, and the result of \<open>os.Stdout.Stat()\<close>: \<open>None\<close> when it returns an
  error, otherwise the file mode, a 32-bit value.
\<close>

record environ =
  forceColors :: "bool option"
  noColor :: bool
  getenv :: "string \<Rightarrow> string"
  GOOS :: string
  stdoutStat :: "32 word option"

text \<open>The initialiser of the package variable \<open>noColor\<close>.\<close>

definition noColor_init :: "(string \<Rightarrow> string) \<Rightarrow> bool" where
  "noColor_init env = (env ''NO_COLOR'' \<noteq> [])"

text \<open>\<open>os.ModeCharDevice\<close> is bit 21 of the file mode.\<close>

definition ModeCharDevice :: "32 word" where
  "ModeCharDevice = push_bit 21 1"

definition ForceColors :: "bool \<Rightarrow> environ \<Rightarrow> environ" where
  "ForceColors enabled e = e\<lparr>forceColors := Some enabled\<rparr>"

definition isTerminal :: "environ \<Rightarrow> bool" where
  "isTerminal e =
     (case stdoutStat e of
        None \<Rightarrow> False
      | Some mode \<Rightarrow> (mode AND ModeCharDevice) \<noteq> 0)"

definition isCI :: "environ \<Rightarrow> bool" where
  "isCI e = (let ci = getenv e ''CI'' in ci = ''true'' \<or> ci = ''1'')"

text \<open>\<open>strings.Contains s substr\<close>: \<open>substr\<close> occurs in \<open>s\<close> as a contiguous block.\<close>

definition Contains :: "string \<Rightarrow> string \<Rightarrow> bool" where
  "Contains s substr = sublist substr s"

definition isWindowsColorSupported :: "environ \<Rightarrow> bool" where
  "isWindowsColorSupported e =
     (let term = getenv e ''TERM''
      in Contains term ''xterm'' \<or> Contains term ''256color'' \<or> getenv e ''WT_SESSION'' \<noteq> [])"

definition isColorEnabled :: "environ \<Rightarrow> bool" where
  "isColorEnabled e =
     (case forceColors e of
        Some fc \<Rightarrow> fc
      | None \<Rightarrow>
          if noColor e then False
          else if \<not> isTerminal e then False
          else if isCI e then False
          else if GOOS e = ''windows'' then isWindowsColorSupported e
          else True)"

section \<open>Applying codes (colors.go)\<close>

definition Reset :: string where
  "Reset = CHR 0x1B # ''[0m''"

definition CyanCode :: string where
  "CyanCode = CHR 0x1B # ''[36m''"

text \<open>
  The loop \<open>for _, code := range codes { result += code }\<close> starts from the empty
  string and appends each code in turn: a left fold of \<open>@\<close>.
\<close>

definition colorize :: "environ \<Rightarrow> string \<Rightarrow> string list \<Rightarrow> string" where
  "colorize e text codes =
     (if \<not> isColorEnabled e then text
      else foldl (@) [] codes @ text @ Reset)"

section \<open>Spinner (spinner.go)\<close>

text \<open>
  Run-time panics of the Go code are values: the integer division by zero and the index
  out of range of \<open>s.frames[s.current%len(s.frames)]\<close>, the panic of
  \<open>strings.Repeat\<close> on a negative count, and the panic of \<open>time.NewTicker\<close> on an
  interval that is not positive.
\<close>

datatype panic =
  IntegerDivideByZero | IndexOutOfRange | NegativeRepeatCount | NonPositiveTickerInterval

text \<open>
  The effects of the spinner's operations are recorded as events, in program order:
  \<open>Fprint out\<close> is \<open>fmt.Fprint(s.writer, out)\<close>; \<open>CallSuccessPrint m\<close> and
  \<open>CallErrorPrint m\<close> are the calls \<open>SuccessPrint(m)\<close> and \<open>ErrorPrint(m)\<close> of the two
  formatting collaborators; \<open>Spawn\<close> is the \<open>go func() {...}()\<close> statement of \<open>Start\<close>.
\<close>

datatype event = Fprint string | CallSuccessPrint string | CallErrorPrint string | Spawn

text \<open>
  The struct. \<open>current\<close> is a Go \<open>int\<close>, whose width depends on the platform: 32 bits where
  \<open>GOARCH\<close> is \<open>386\<close> or \<open>arm\<close>, 64 bits on \<open>amd64\<close> and \<open>arm64\<close>. The type of the field is
  the parameter \<open>'i\<close> of the record, taken as \<open>32 word\<close> or \<open>64 word\<close> and read as two's
  complement with \<open>sint\<close>. \<open>speed\<close> is a \<open>time.Duration\<close>, an \<open>int64\<close> of nanoseconds.
  \<open>stop\<close> is the content of the channel \<open>make(chan bool, 1)\<close>, at most one buffered
  value. The mutex and the writer (always \<open>os.Stdout\<close>) carry no data of their own: what an
  operation writes is in its events.
\<close>

record 'i Spinner =
  message :: string
  frames :: "string list"
  current :: 'i
  stop :: "bool list"
  running :: bool
  color :: string
  speed :: "64 word"
  lastOutput :: string

type_synonym 'i SpinnerOption = "'i Spinner \<Rightarrow> 'i Spinner"

type_synonym SpinnerStyle = int

definition SpinnerDots :: SpinnerStyle where "SpinnerDots = 0"
definition SpinnerLine :: SpinnerStyle where "SpinnerLine = 1"
definition SpinnerArrow :: SpinnerStyle where "SpinnerArrow = 2"
definition SpinnerBounce :: SpinnerStyle where "SpinnerBounce = 3"
definition SpinnerCircle :: SpinnerStyle where "SpinnerCircle = 4"
definition SpinnerSquare :: SpinnerStyle where "SpinnerSquare = 5"
definition SpinnerGrowDots :: SpinnerStyle where "SpinnerGrowDots = 6"
definition SpinnerPulse :: SpinnerStyle where "SpinnerPulse = 7"

text \<open>The glyphs are written as their UTF-8 bytes.\<close>

definition dotsFrames :: "string list" where
  "dotsFrames =
     [[CHR 0xE2, CHR 0xA0, CHR 0x8B], [CHR 0xE2, CHR 0xA0, CHR 0x99],
      [CHR 0xE2, CHR 0xA0, CHR 0xB9], [CHR 0xE2, CHR 0xA0, CHR 0xB8],
      [CHR 0xE2, CHR 0xA0, CHR 0xBC], [CHR 0xE2, CHR 0xA0, CHR 0xB4],
      [CHR 0xE2, CHR 0xA0, CHR 0xA6], [CHR 0xE2, CHR 0xA0, CHR 0xA7],
      [CHR 0xE2, CHR 0xA0, CHR 0x87], [CHR 0xE2, CHR 0xA0, CHR 0x8F]]"

definition getSpinnerFrames :: "SpinnerStyle \<Rightarrow> string list" where
  "getSpinnerFrames style =
     (if style = SpinnerDots then dotsFrames
      else if style = SpinnerLine then [[CHR 0x7C], [CHR 0x2F], [CHR 0x2D], [CHR 0x5C]]
      else if style = SpinnerArrow then
        [[CHR 0xE2, CHR 0x86, CHR 0x90], [CHR 0xE2, CHR 0x86, CHR 0x96],
         [CHR 0xE2, CHR 0x86, CHR 0x91], [CHR 0xE2, CHR 0x86, CHR 0x97],
         [CHR 0xE2, CHR 0x86, CHR 0x92], [CHR 0xE2, CHR 0x86, CHR 0x98],
         [CHR 0xE2, CHR 0x86, CHR 0x93], [CHR 0xE2, CHR 0x86, CHR 0x99]]
      else if style = SpinnerBounce then
        [[CHR 0xE2, CHR 0xA0, CHR 0x81], [CHR 0xE2, CHR 0xA0, CHR 0x82],
         [CHR 0xE2, CHR 0xA0, CHR 0x84], [CHR 0xE2, CHR 0xA1, CHR 0x80],
         [CHR 0xE2, CHR 0xA2, CHR 0x80], [CHR 0xE2, CHR 0xA0, CHR 0xA0],
         [CHR 0xE2, CHR 0xA0, CHR 0x90], [CHR 0xE2, CHR 0xA0, CHR 0x88]]
      else if style = SpinnerCircle then
        [[CHR 0xE2, CHR 0x97, CHR 0x90], [CHR 0xE2, CHR 0x97, CHR 0x93],
         [CHR 0xE2, CHR 0x97, CHR 0x91], [CHR 0xE2, CHR 0x97, CHR 0x92]]
      else if style = SpinnerSquare then
        [[CHR 0xE2, CHR 0x97, CHR 0xB0], [CHR 0xE2, CHR 0x97, CHR 0xB3],
         [CHR 0xE2, CHR 0x97, CHR 0xB2], [CHR 0xE2, CHR 0x97, CHR 0xB1]]
      else if style = SpinnerGrowDots then
        [[CHR 0xE2, CHR 0xA3, CHR 0xBE], [CHR 0xE2, CHR 0xA3, CHR 0xBD],
         [CHR 0xE2, CHR 0xA3, CHR 0xBB], [CHR 0xE2, CHR 0xA2, CHR 0xBF],
         [CHR 0xE2, CHR 0xA1, CHR 0xBF], [CHR 0xE2, CHR 0xA3, CHR 0x9F],
         [CHR 0xE2, CHR 0xA3, CHR 0xAF], [CHR 0xE2, CHR 0xA3, CHR 0xB7]]
      else if style = SpinnerPulse then
        [[CHR 0xE2, CHR 0x97, CHR 0x8F], [CHR 0xE2, CHR 0x97, CHR 0x8B],
         [CHR 0xE2, CHR 0x97, CHR 0x8F], [CHR 0xE2, CHR 0x97, CHR 0x8B]]
      else dotsFrames)"

text \<open>\<open>60 * time.Millisecond\<close> in nanoseconds.\<close>

definition defaultSpeed :: "64 word" where
  "defaultSpeed = 60 * 1000000"

definition NewSpinner :: "string \<Rightarrow> 'w::len word SpinnerOption list \<Rightarrow> 'w word Spinner" where
  "NewSpinner msg opts =
     foldl (\<lambda>s opt. opt s)
       \<lparr>message = msg, frames = getSpinnerFrames SpinnerDots, current = 0, stop = [],
        running = False, color = CyanCode, speed = defaultSpeed, lastOutput = []\<rparr>
       opts"

definition WithSpinnerStyle :: "SpinnerStyle \<Rightarrow> 'i SpinnerOption" where
  "WithSpinnerStyle style = (\<lambda>s. s\<lparr>frames := getSpinnerFrames style\<rparr>)"

definition WithSpinnerColor :: "string \<Rightarrow> 'i SpinnerOption" where
  "WithSpinnerColor c = (\<lambda>s. s\<lparr>color := c\<rparr>)"

definition WithSpinnerSpeed :: "64 word \<Rightarrow> 'i SpinnerOption" where
  "WithSpinnerSpeed d = (\<lambda>s. s\<lparr>speed := d\<rparr>)"

definition WithCustomFrames :: "string list \<Rightarrow> 'i SpinnerOption" where
  "WithCustomFrames fs = (\<lambda>s. s\<lparr>frames := fs\<rparr>)"

text \<open>
  \<open>len\<close> of a string or slice, as a Go \<open>int\<close>. A length is far below \<open>2 ^ 63\<close>, so it
  is an unbounded \<open>int\<close> here and sums of lengths do not wrap.
\<close>

definition len :: "'a list \<Rightarrow> int" where
  "len xs = int (length xs)"

text \<open>
  Go's \<open>%\<close> on integers truncates towards zero: the remainder has the sign of the
  dividend. (The divisor is checked for zero where it is used.)
\<close>

definition go_rem :: "int \<Rightarrow> int \<Rightarrow> int" where
  "go_rem a b = sgn a * (\<bar>a\<bar> mod \<bar>b\<bar>)"

definition maxInt :: "int \<Rightarrow> int \<Rightarrow> int" where
  "maxInt a b = (if a > b then a else b)"

definition Repeat :: "string \<Rightarrow> int \<Rightarrow> panic + string" where
  "Repeat s count =
     (if count < 0 then Inl NegativeRepeatCount else Inr (concat (replicate (nat count) s)))"

text \<open>The send \<open>select { case ch <- v: default: }\<close> on a channel of capacity 1.\<close>

definition trySend :: "bool list \<Rightarrow> bool \<Rightarrow> bool list" where
  "trySend ch v = (if length ch < 1 then ch @ [v] else ch)"

definition hideCursor :: string where
  "hideCursor = CHR 0x1B # ''[?25l''"

definition showCursor :: string where
  "showCursor = CHR 0x1B # ''[?25h''"

text \<open>
  \<open>Start\<close>, \<open>Stop\<close>, \<open>StopWithError\<close> and \<open>UpdateMessage\<close> are written first as they run
  when nothing else touches the spinner in between. \<open>Start\<close>: the check and the flip of
  \<open>running\<close>, then the \<open>go\<close> statement. What the launched goroutine does is in
  \<open>taskEnter\<close>, \<open>render\<close> and \<open>taskStop\<close> below.
\<close>

definition Start :: "'i Spinner \<Rightarrow> event list \<times> 'i Spinner" where
  "Start s = (if running s then ([], s) else ([Spawn], s\<lparr>running := True\<rparr>))"

text \<open>The index expression \<open>s.current%len(s.frames)\<close> and the slice access around it.\<close>

definition frameIndex :: "'w::len word Spinner \<Rightarrow> panic + int" where
  "frameIndex s =
     (if len (frames s) = 0 then Inl IntegerDivideByZero
      else Inr (go_rem (sint (current s)) (len (frames s))))"

definition currentFrame :: "'w::len word Spinner \<Rightarrow> panic + string" where
  "currentFrame s =
     (case frameIndex s of
        Inl p \<Rightarrow> Inl p
      | Inr i \<Rightarrow>
          if i < 0 \<or> len (frames s) \<le> i then Inl IndexOutOfRange
          else Inr (frames s ! nat i))"

text \<open>
  The line \<open>render\<close> builds for a frame, before any padding: the two \<open>Sprintf\<close> calls,
  one for each answer of the color policy.
\<close>

definition spinnerLine :: "environ \<Rightarrow> 'i Spinner \<Rightarrow> string \<Rightarrow> string" where
  "spinnerLine e s frame =
     (if isColorEnabled e
      then [CHR 0x0D] @ colorize e frame [color s] @ '' '' @ message s
      else [CHR 0x0D] @ frame @ '' '' @ message s)"

definition render ::
  "environ \<Rightarrow> 'w::len word Spinner \<Rightarrow> panic + (event list \<times> 'w word Spinner)" where
  "render e s =
     (case currentFrame s of
        Inl p \<Rightarrow> Inl p
      | Inr frame \<Rightarrow>
          let s1 = s\<lparr>current := current s + 1\<rparr>;
              output = spinnerLine e s1 frame
          in if len (lastOutput s1) > len output
             then (case Repeat '' '' (len (lastOutput s1) - len output) of
                     Inl p \<Rightarrow> Inl p
                   | Inr padding \<Rightarrow>
                       Inr ([Fprint (output @ padding)], s1\<lparr>lastOutput := output @ padding\<rparr>))
             else Inr ([Fprint output], s1\<lparr>lastOutput := output\<rparr>))"

text \<open>\<open>n\<close> renders one after the other; a panic ends the run.\<close>

fun renderN ::
  "environ \<Rightarrow> nat \<Rightarrow> 'w::len word Spinner \<Rightarrow> panic + (event list \<times> 'w word Spinner)" where
  "renderN e 0 s = Inr ([], s)"
| "renderN e (Suc n) s =
     (case render e s of
        Inl p \<Rightarrow> Inl p
      | Inr (evs, s1) \<Rightarrow>
          (case renderN e n s1 of
             Inl p \<Rightarrow> Inl p
           | Inr (evs', s2) \<Rightarrow> Inr (evs @ evs', s2)))"

text \<open>
  \<open>Stop\<close>. The \<open>time.Sleep\<close> between the signal and the clearing changes no field.
  \<open>clearLength\<close> is computed from the fields of the spinner.
\<close>

definition Stop :: "'i Spinner \<Rightarrow> string \<Rightarrow> panic + (event list \<times> 'i Spinner)" where
  "Stop s msg =
     (if \<not> running s then Inr ([], s)
      else
        let s1 = s\<lparr>running := False\<rparr>;
            s2 = s1\<lparr>stop := trySend (stop s1) True\<rparr>;
            clearLength = maxInt (len (lastOutput s2)) (len (message s2) + 10)
        in case Repeat '' '' clearLength of
             Inl p \<Rightarrow> Inl p
           | Inr spaces \<Rightarrow>
               Inr ([Fprint ([CHR 0x0D] @ spaces @ [CHR 0x0D])] @
                    (if msg \<noteq> [] then [CallSuccessPrint msg] else []), s2))"

definition StopWithError ::
  "'i Spinner \<Rightarrow> string \<Rightarrow> panic + (event list \<times> 'i Spinner)" where
  "StopWithError s msg =
     (if \<not> running s then Inr ([], s)
      else
        let s1 = s\<lparr>running := False\<rparr>;
            s2 = s1\<lparr>stop := trySend (stop s1) True\<rparr>;
            clearLength = maxInt (len (lastOutput s2)) (len (message s2) + 10)
        in case Repeat '' '' clearLength of
             Inl p \<Rightarrow> Inl p
           | Inr spaces \<Rightarrow>
               Inr ([Fprint ([CHR 0x0D] @ spaces @ [CHR 0x0D])] @ [CallErrorPrint msg], s2))"

definition UpdateMessage :: "'i Spinner \<Rightarrow> string \<Rightarrow> event list \<times> 'i Spinner" where
  "UpdateMessage s msg = ([], s\<lparr>message := msg\<rparr>)"

fun isSuccessCall :: "event \<Rightarrow> bool" where
  "isSuccessCall (CallSuccessPrint m) = True"
| "isSuccessCall ev = False"

fun isErrorCall :: "event \<Rightarrow> bool" where
  "isErrorCall (CallErrorPrint m) = True"
| "isErrorCall ev = False"

section \<open>The spinner, its callers and its goroutines\<close>

text \<open>
  \<open>Start\<close> and \<open>Stop\<close> hold \<open>s.mu\<close> only for parts of their bodies, so other calls and
  the goroutines can run between those parts. The parts, cut where the Go code releases
  the mutex: \<open>startFlip\<close> (lines 207 to 213) answers whether the \<open>go\<close> statement follows;
  \<open>stopFlip\<close> (285 to 291, the same text in \<open>StopWithError\<close>) answers whether the call
  goes on; \<open>stopSend\<close> is the send without blocking (294 to 298); \<open>stopMeasure\<close> reads
  \<open>clearLength\<close> under the mutex after the sleep (304 to 306); \<open>stopPrint\<close> writes the
  erasing line and calls the formatter (308 to 312, and 357 to 359 for the error).
\<close>

definition startFlip :: "'i Spinner \<Rightarrow> bool \<times> 'i Spinner" where
  "startFlip s = (if running s then (False, s) else (True, s\<lparr>running := True\<rparr>))"

definition stopFlip :: "'i Spinner \<Rightarrow> bool \<times> 'i Spinner" where
  "stopFlip s = (if \<not> running s then (False, s) else (True, s\<lparr>running := False\<rparr>))"

definition stopSend :: "'i Spinner \<Rightarrow> 'i Spinner" where
  "stopSend s = s\<lparr>stop := trySend (stop s) True\<rparr>"

definition stopMeasure :: "'i Spinner \<Rightarrow> int" where
  "stopMeasure s = maxInt (len (lastOutput s)) (len (message s) + 10)"

definition stopPrint :: "bool \<Rightarrow> string \<Rightarrow> int \<Rightarrow> panic + event list" where
  "stopPrint isError msg clearLength =
     (case Repeat '' '' clearLength of
        Inl p \<Rightarrow> Inl p
      | Inr spaces \<Rightarrow>
          Inr ([Fprint ([CHR 0x0D] @ spaces @ [CHR 0x0D])] @
               (if isError then [CallErrorPrint msg]
                else if msg \<noteq> [] then [CallSuccessPrint msg] else [])))"

text \<open>
  The goroutine launched by \<open>Start\<close>, in three pieces: what it does before its loop
  (\<open>time.NewTicker(s.speed)\<close>, hiding the cursor), a tick of the ticker (\<open>render\<close>),
  and the receipt of a value from \<open>s.stop\<close> (showing the cursor again and returning).
\<close>

definition taskEnter :: "environ \<Rightarrow> 'i Spinner \<Rightarrow> panic + event list" where
  "taskEnter e s =
     (if sint (speed s) \<le> 0 then Inl NonPositiveTickerInterval
      else Inr (if isColorEnabled e then [Fprint hideCursor] else []))"

definition taskStop :: "environ \<Rightarrow> 'i Spinner \<Rightarrow> (event list \<times> 'i Spinner) option" where
  "taskStop e s =
     (case stop s of
        [] \<Rightarrow> None
      | v # rest \<Rightarrow>
          Some (if isColorEnabled e then [Fprint showCursor] else [], s\<lparr>stop := rest\<rparr>))"

text \<open>
  What a call that has begun and not yet returned still has to do: the \<open>go\<close> statement of
  a \<open>Start\<close>; or, for a \<open>Stop\<close> (\<open>False\<close>) or a \<open>StopWithError\<close> (\<open>True\<close>) with its message,
  the send, then the reading of \<open>clearLength\<close>, then the printing with the length read.
\<close>

datatype pending =
  GoNext | SendNext bool string | MeasureNext bool string | PrintNext bool string int

text \<open>
  A spinner together with the calls in progress and the goroutines it has launched:
  \<open>spawned\<close> counts the goroutines that have not reached their loop yet, \<open>looping\<close>
  those that wait in the \<open>select\<close>, and \<open>trace\<close> collects the events so far. Nothing in the
  Go code waits for a goroutine to return: \<open>Stop\<close> sleeps for 10 ms, it does not join.
  The parts of the calls and the steps of the goroutines are separate actions that may
  come in any order: a \<open>Call\<close> action begins a call with its first part under the mutex,
  \<open>Resume k\<close> runs the next part of the call at position \<open>k\<close> of \<open>calls\<close>. An action of a
  call or goroutine that is not there, or a receipt from an empty channel, changes nothing.
\<close>

record 'i system =
  sp :: "'i Spinner"
  calls :: "pending list"
  spawned :: nat
  looping :: nat
  trace :: "event list"

definition boot :: "'i Spinner \<Rightarrow> 'i system" where
  "boot s = \<lparr>sp = s, calls = [], spawned = 0, looping = 0, trace = []\<rparr>"

definition liveTasks :: "'i system \<Rightarrow> nat" where
  "liveTasks sys = spawned sys + looping sys"

datatype action =
  CallStart | CallStop string | CallStopWithError string | CallUpdateMessage string
  | Resume nat | TaskEnter | TaskTick | TaskStopSignal

definition returned :: "nat \<Rightarrow> pending list \<Rightarrow> pending list" where
  "returned k cs = take k cs @ drop (Suc k) cs"

definition resume :: "nat \<Rightarrow> 'i system \<Rightarrow> panic + 'i system" where
  "resume k sys =
     (if length (calls sys) \<le> k then Inr sys
      else case calls sys ! k of
             GoNext \<Rightarrow>
               Inr (sys\<lparr>calls := returned k (calls sys), spawned := spawned sys + 1,
                        trace := trace sys @ [Spawn]\<rparr>)
           | SendNext b m \<Rightarrow>
               Inr (sys\<lparr>sp := stopSend (sp sys), calls := (calls sys)[k := MeasureNext b m]\<rparr>)
           | MeasureNext b m \<Rightarrow>
               Inr (sys\<lparr>calls := (calls sys)[k := PrintNext b m (stopMeasure (sp sys))]\<rparr>)
           | PrintNext b m n \<Rightarrow>
               (case stopPrint b m n of
                  Inl p \<Rightarrow> Inl p
                | Inr evs \<Rightarrow>
                    Inr (sys\<lparr>calls := returned k (calls sys), trace := trace sys @ evs\<rparr>)))"

fun step :: "environ \<Rightarrow> action \<Rightarrow> 'w::len word system \<Rightarrow> panic + 'w word system" where
  "step e CallStart sys =
     (case startFlip (sp sys) of
        (go, s') \<Rightarrow> Inr (sys\<lparr>sp := s', calls := calls sys @ (if go then [GoNext] else [])\<rparr>))"
| "step e (CallStop m) sys =
     (case stopFlip (sp sys) of
        (go, s') \<Rightarrow>
          Inr (sys\<lparr>sp := s', calls := calls sys @ (if go then [SendNext False m] else [])\<rparr>))"
| "step e (CallStopWithError m) sys =
     (case stopFlip (sp sys) of
        (go, s') \<Rightarrow>
          Inr (sys\<lparr>sp := s', calls := calls sys @ (if go then [SendNext True m] else [])\<rparr>))"
| "step e (CallUpdateMessage m) sys =
     (case UpdateMessage (sp sys) m of
        (evs, s') \<Rightarrow> Inr (sys\<lparr>sp := s', trace := trace sys @ evs\<rparr>))"
| "step e (Resume k) sys = resume k sys"
| "step e TaskEnter sys =
     (if spawned sys = 0 then Inr sys
      else case taskEnter e (sp sys) of
             Inl p \<Rightarrow> Inl p
           | Inr evs \<Rightarrow>
               Inr (sys\<lparr>spawned := spawned sys - 1, looping := looping sys + 1,
                        trace := trace sys @ evs\<rparr>))"
| "step e TaskTick sys =
     (if looping sys = 0 then Inr sys
      else case render e (sp sys) of
             Inl p \<Rightarrow> Inl p
           | Inr (evs, s') \<Rightarrow> Inr (sys\<lparr>sp := s', trace := trace sys @ evs\<rparr>))"
| "step e TaskStopSignal sys =
     (if looping sys = 0 then Inr sys
      else case taskStop e (sp sys) of
             None \<Rightarrow> Inr sys
           | Some (evs, s') \<Rightarrow>
               Inr (sys\<lparr>sp := s', looping := looping sys - 1, trace := trace sys @ evs\<rparr>))"

fun run :: "environ \<Rightarrow> action list \<Rightarrow> 'w::len word system \<Rightarrow> panic + 'w word system" where
  "run e [] sys = Inr sys"
| "run e (a # as) sys = (case step e a sys of Inl p \<Rightarrow> Inl p | Inr sys' \<Rightarrow> run e as sys')"

section \<open>Example inputs\<close>

text \<open>
  A Windows process on a terminal (a character device) whose \<open>TERM\<close> is
  \<open>xterm-256color\<close>, with no override, and the same process after \<open>ForceColors(false)\<close>.
\<close>

definition windowsVars :: "string \<Rightarrow> string" where
  "windowsVars = (\<lambda>k. if k = ''TERM'' then ''xterm-256color'' else [])"

definition windowsTerminalEnv :: environ where
  "windowsTerminalEnv =
     \<lparr>forceColors = None, noColor = noColor_init windowsVars, getenv = windowsVars,
      GOOS = ''windows'', stdoutStat = Some (push_bit 26 1 OR push_bit 21 1 OR 0x190)\<rparr>"

definition forcedOffEnv :: environ where
  "forcedOffEnv = ForceColors False windowsTerminalEnv"

text \<open>
  Spinners: one started and not yet rendered; one with the three custom frames \<open>A\<close>,
  \<open>B\<close>, \<open>C\<close>, where \<open>int\<close> has 32 bits (with a frame every millisecond) and where it
  has 64; one with the default frames where \<open>int\<close> has 32 bits (with a frame every
  millisecond); and a fresh one labelled \<open>Hi\<close>.
\<close>

definition startedSpinner :: "64 word Spinner" where
  "startedSpinner = snd (Start (NewSpinner ''Hi'' []))"

definition abcSpinner32 :: "32 word Spinner" where
  "abcSpinner32 =
     NewSpinner ''Hi'' [WithCustomFrames [''A'', ''B'', ''C''], WithSpinnerSpeed 1000000]"

definition abcSpinner64 :: "64 word Spinner" where
  "abcSpinner64 = NewSpinner ''Hi'' [WithCustomFrames [''A'', ''B'', ''C'']]"

definition loadingSpinner32 :: "32 word Spinner" where
  "loadingSpinner32 = NewSpinner ''Loading'' [WithSpinnerSpeed 1000000]"

definition hiSpinner :: "64 word Spinner" where
  "hiSpinner = NewSpinner ''Hi'' []"

section \<open>Helper lemmas\<close>

lemma foldl_append_concat: "foldl (@) acc xs = acc @ concat xs"
  by (induction xs arbitrary: acc) simp_all

lemma Contains_iff: "Contains s substr \<longleftrightarrow> (\<exists>ps ss. s = ps @ substr @ ss)"
  by (simp add: Contains_def sublist_def)

lemma Repeat_space: "0 \<le> n \<Longrightarrow> Repeat '' '' n = Inr (replicate (nat n) CHR '' '')"
  by (induction "nat n" arbitrary: n) (auto simp: Repeat_def replicate_append_same)

lemma clearLength_nonneg: "0 \<le> maxInt (len a) (len b + 10)"
  by (simp add: maxInt_def len_def)

lemma maxInt_max: "maxInt a b = max a b"
  by (simp add: maxInt_def max_def)

lemma Start_running: "running s \<Longrightarrow> Start s = ([], s)"
  by (simp add: Start_def)

lemma Start_idle: "\<not> running s \<Longrightarrow> Start s = ([Spawn], s\<lparr>running := True\<rparr>)"
  by (simp add: Start_def)

lemma Stop_running:
  "running s \<Longrightarrow>
   Stop s msg =
     Inr (Fprint ([CHR 0x0D] @
                  replicate (nat (max (len (lastOutput s)) (len (message s) + 10))) CHR '' '' @
                  [CHR 0x0D])
            # (if msg \<noteq> [] then [CallSuccessPrint msg] else []),
          s\<lparr>running := False, stop := trySend (stop s) True\<rparr>)"
  using clearLength_nonneg [of "lastOutput s" "message s"]
  by (simp add: Stop_def Let_def Repeat_space maxInt_max)

lemma Stop_idle: "\<not> running s \<Longrightarrow> Stop s msg = Inr ([], s)"
  by (simp add: Stop_def)

lemma StopWithError_running:
  "running s \<Longrightarrow>
   StopWithError s msg =
     Inr ([Fprint ([CHR 0x0D] @
                   replicate (nat (max (len (lastOutput s)) (len (message s) + 10))) CHR '' '' @
                   [CHR 0x0D]),
           CallErrorPrint msg],
          s\<lparr>running := False, stop := trySend (stop s) True\<rparr>)"
  using clearLength_nonneg [of "lastOutput s" "message s"]
  by (simp add: StopWithError_def Let_def Repeat_space maxInt_max)

lemma startedSpinner_fields:
  "running startedSpinner" "message startedSpinner = ''Hi''" "lastOutput startedSpinner = []"
  "stop startedSpinner = []"
  by (simp_all add: startedSpinner_def Start_def NewSpinner_def)

lemma abcSpinner_fields:
  "frames abcSpinner32 = [''A'', ''B'', ''C'']" "current abcSpinner32 = 0"
  "frames abcSpinner64 = [''A'', ''B'', ''C'']" "current abcSpinner64 = 0"
  by (simp_all add: abcSpinner32_def abcSpinner64_def NewSpinner_def WithCustomFrames_def
        WithSpinnerSpeed_def)

lemma loadingSpinner_fields: "frames loadingSpinner32 = dotsFrames" "current loadingSpinner32 = 0"
  by (simp_all add: loadingSpinner32_def NewSpinner_def WithSpinnerSpeed_def getSpinnerFrames_def)

subsection \<open>The calls and their parts\<close>

text \<open>
  Run one after the other with nothing in between, the parts of a call are the call: the
  cut changes what can come between them, not what they do.
\<close>

lemma Start_parts:
  "Start s = (case startFlip s of (go, s') \<Rightarrow> (if go then [Spawn] else [], s'))"
  by (simp add: Start_def startFlip_def)

lemma Stop_parts:
  "Stop s msg =
     (case stopFlip s of
        (go, s1) \<Rightarrow>
          if \<not> go then Inr ([], s1)
          else (case stopPrint False msg (stopMeasure (stopSend s1)) of
                  Inl p \<Rightarrow> Inl p
                | Inr evs \<Rightarrow> Inr (evs, stopSend s1)))"
  by (simp add: Stop_def stopFlip_def stopSend_def stopMeasure_def stopPrint_def Let_def
           split: sum.splits)

lemma StopWithError_parts:
  "StopWithError s msg =
     (case stopFlip s of
        (go, s1) \<Rightarrow>
          if \<not> go then Inr ([], s1)
          else (case stopPrint True msg (stopMeasure (stopSend s1)) of
                  Inl p \<Rightarrow> Inl p
                | Inr evs \<Rightarrow> Inr (evs, stopSend s1)))"
  by (simp add: StopWithError_def stopFlip_def stopSend_def stopMeasure_def stopPrint_def Let_def
           split: sum.splits)

lemma run_Start:
  "calls sys = [] \<Longrightarrow>
   run e [CallStart, Resume 0] sys =
     (case Start (sp sys) of
        (evs, s') \<Rightarrow>
          Inr (sys\<lparr>sp := s', spawned := spawned sys + length (filter (\<lambda>ev. ev = Spawn) evs),
                   trace := trace sys @ evs\<rparr>))"
  by (simp add: Start_def startFlip_def resume_def returned_def)

lemma run_Stop:
  "calls sys = [] \<Longrightarrow>
   run e [CallStop m, Resume 0, Resume 0, Resume 0] sys =
     (case Stop (sp sys) m of
        Inl p \<Rightarrow> Inl p
      | Inr (evs, s') \<Rightarrow> Inr (sys\<lparr>sp := s', trace := trace sys @ evs\<rparr>))"
  by (cases "running (sp sys)")
     (simp_all add: Stop_parts stopFlip_def resume_def returned_def split: sum.splits)

subsection \<open>The frame index\<close>

lemma go_rem_nonneg: "0 \<le> a \<Longrightarrow> 0 < b \<Longrightarrow> go_rem a b = a mod b"
  by (cases "a = 0") (simp_all add: go_rem_def)

lemma frameIndex_nonneg:
  "frames s \<noteq> [] \<Longrightarrow> 0 \<le> sint (current s) \<Longrightarrow>
   frameIndex s = Inr (int (nat (sint (current s)) mod length (frames s)))"
  by (simp add: frameIndex_def len_def go_rem_nonneg zmod_int)

lemma currentFrame_nonneg:
  "frames s \<noteq> [] \<Longrightarrow> 0 \<le> sint (current s) \<Longrightarrow>
   currentFrame s = Inr (frames s ! (nat (sint (current s)) mod length (frames s)))"
  by (simp add: currentFrame_def frameIndex_nonneg len_def not_le)

lemma currentFrame_empty: "frames s = [] \<Longrightarrow> currentFrame s = Inl IntegerDivideByZero"
  by (simp add: currentFrame_def frameIndex_def len_def)

lemma spinnerLine_current [simp]: "spinnerLine e (s\<lparr>current := c\<rparr>) frame = spinnerLine e s frame"
  by (simp add: spinnerLine_def)

lemma render_line:
  assumes "currentFrame s = Inr frame"
    and "out = spinnerLine e s frame @
               replicate (nat (len (lastOutput s) - len (spinnerLine e s frame))) CHR '' ''"
  shows "render e s = Inr ([Fprint out], s\<lparr>current := current s + 1, lastOutput := out\<rparr>)"
  using assms by (simp add: render_def Let_def Repeat_space)

lemma render_after_frame:
  "currentFrame s = Inr frame \<Longrightarrow>
   \<exists>out. render e s = Inr ([Fprint out], s\<lparr>current := current s + 1, lastOutput := out\<rparr>)"
  using render_line [of s frame _ e] by blast

lemma render_panics: "currentFrame s = Inl p \<Longrightarrow> render e s = Inl p"
  by (simp add: render_def)

lemma render_empty_frames: "frames s = [] \<Longrightarrow> render e s = Inl IntegerDivideByZero"
  by (simp add: render_panics currentFrame_empty)

lemma render_nonneg:
  assumes "frames s \<noteq> []" "0 \<le> sint (current s)"
  shows "\<exists>out. render e s = Inr ([Fprint out], s\<lparr>current := current s + 1, lastOutput := out\<rparr>)"
  using render_after_frame [OF currentFrame_nonneg [OF assms]] .

text \<open>The counter below its largest value: adding one does not wrap.\<close>

lemma sint_succ:
  "sint (w :: 'w::len word) < 2 ^ (LENGTH('w) - 1) - 1 \<Longrightarrow> sint (w + 1) = sint w + 1"
proof -
  have lo: "- (2 ^ (LENGTH('w) - 1)) \<le> sint w" using sint_ge [of w] by simp
  assume "sint w < 2 ^ (LENGTH('w) - 1) - 1"
  with lo have "signed_take_bit (LENGTH('w) - 1) (sint w + 1) = sint w + 1"
    by (intro signed_take_bit_int_eq_self) simp_all
  moreover have "w + 1 = word_of_int (sint w + 1)" by simp
  ultimately show ?thesis by (simp only: sint_sbintrunc')
qed

text \<open>
  From a non-negative index, as many renders succeed as there are values left up to the
  largest one, plus the one that wraps the counter; each adds one to it.
\<close>

lemma renderN_count:
  fixes s :: "'w::len word Spinner"
  shows "frames s \<noteq> [] \<Longrightarrow> 0 \<le> sint (current s) \<Longrightarrow>
   sint (current s) + int n \<le> 2 ^ (LENGTH('w) - 1) \<Longrightarrow>
   \<exists>evs s'. renderN e n s = Inr (evs, s') \<and> current s' = current s + of_nat n \<and>
     frames s' = frames s \<and> message s' = message s \<and> running s' = running s"
proof (induction n arbitrary: s)
  case 0
  then show ?case by simp
next
  case (Suc n)
  from render_nonneg [OF Suc.prems(1,2)] obtain out where
    r: "render e s = Inr ([Fprint out], s\<lparr>current := current s + 1, lastOutput := out\<rparr>)"
    by blast
  let ?s1 = "s\<lparr>current := current s + 1, lastOutput := out\<rparr>"
  show ?case
  proof (cases n)
    case 0
    with r show ?thesis by simp
  next
    case (Suc m)
    with Suc.prems have lt: "sint (current s) < 2 ^ (LENGTH('w) - 1) - 1" by simp
    have s1: "sint (current ?s1) = sint (current s) + 1" using sint_succ [OF lt] by simp
    have "\<exists>evs s'. renderN e n ?s1 = Inr (evs, s') \<and> current s' = current ?s1 + of_nat n \<and>
       frames s' = frames ?s1 \<and> message s' = message ?s1 \<and> running s' = running ?s1"
      using Suc.prems s1 by (intro Suc.IH) simp_all
    with r show ?thesis by auto
  qed
qed

lemma renderN_add:
  "renderN e (n + m) s =
     (case renderN e n s of
        Inl p \<Rightarrow> Inl p
      | Inr (evs, s1) \<Rightarrow>
          (case renderN e m s1 of Inl p \<Rightarrow> Inl p | Inr (evs', s2) \<Rightarrow> Inr (evs @ evs', s2)))"
  by (induction n arbitrary: s) (auto split: sum.splits prod.splits)

text \<open>After the wrap: the remainder is negative and the slice access panics.\<close>

lemma frameIndex_wrapped32:
  "frames s = [''A'', ''B'', ''C''] \<Longrightarrow> current s = (2 ^ 31 :: 32 word) \<Longrightarrow>
   frameIndex s = Inr (- 2)"
  by (simp add: frameIndex_def len_def go_rem_def)

lemma render_wrapped32:
  "frames s = [''A'', ''B'', ''C''] \<Longrightarrow> current s = (2 ^ 31 :: 32 word) \<Longrightarrow>
   render e s = Inl IndexOutOfRange"
  by (simp add: render_def currentFrame_def frameIndex_def len_def go_rem_def)

lemma render_wrapped64:
  "frames s = [''A'', ''B'', ''C''] \<Longrightarrow> current s = (2 ^ 63 :: 64 word) \<Longrightarrow>
   render e s = Inl IndexOutOfRange"
  by (simp add: render_def currentFrame_def frameIndex_def len_def go_rem_def)

lemma render_wrapped_dots:
  "frames s = dotsFrames \<Longrightarrow> current s = (2 ^ 31 :: 32 word) \<Longrightarrow>
   render e s = Inl IndexOutOfRange"
  by (simp add: render_def currentFrame_def frameIndex_def len_def go_rem_def dotsFrames_def)

section \<open>The color policy\<close>

text \<open>
  C1. \<open>isColorEnabled\<close> answers true exactly when the override is set to true, or the
  override is unset, \<open>noColor\<close> is false, stdout is a terminal, no CI signal is present and
  (the OS is not Windows, or \<open>TERM\<close> contains \<open>xterm\<close> or \<open>256color\<close>, or \<open>WT_SESSION\<close> is
  non-empty). The checks are decided in this priority order: a set override decides
  whatever the other inputs are; with no override \<open>noColor\<close> decides; then a stdout that is
  not a terminal; then CI; and only then the platform check.
\<close>

theorem isColorEnabled_exactly:
  "(isColorEnabled e \<longleftrightarrow>
      forceColors e = Some True \<or>
      (forceColors e = None \<and> \<not> noColor e \<and> isTerminal e \<and> \<not> isCI e \<and>
       (GOOS e \<noteq> ''windows'' \<or>
        Contains (getenv e ''TERM'') ''xterm'' \<or> Contains (getenv e ''TERM'') ''256color'' \<or>
        getenv e ''WT_SESSION'' \<noteq> [])))
   \<and> (\<forall>b. forceColors e = Some b \<longrightarrow> isColorEnabled e = b)
   \<and> (forceColors e = None \<and> noColor e \<longrightarrow> \<not> isColorEnabled e)
   \<and> (forceColors e = None \<and> \<not> noColor e \<and> \<not> isTerminal e \<longrightarrow> \<not> isColorEnabled e)
   \<and> (forceColors e = None \<and> \<not> noColor e \<and> isTerminal e \<and> isCI e \<longrightarrow> \<not> isColorEnabled e)
   \<and> (forceColors e = None \<and> \<not> noColor e \<and> isTerminal e \<and> \<not> isCI e \<longrightarrow>
        isColorEnabled e = (if GOOS e = ''windows'' then isWindowsColorSupported e else True))"
  by (cases "forceColors e") (auto simp: isColorEnabled_def isWindowsColorSupported_def)

text \<open>
  The theorem of C1 at the Windows terminal with \<open>TERM=xterm-256color\<close>: no override, no
  \<open>NO_COLOR\<close>, a terminal, no CI, and the ANSI signal present, so colors are enabled.
\<close>

theorem isColorEnabled_exactly_witness:
  "forceColors windowsTerminalEnv = None \<and> \<not> noColor windowsTerminalEnv \<and>
   isTerminal windowsTerminalEnv \<and> \<not> isCI windowsTerminalEnv \<and>
   GOOS windowsTerminalEnv = ''windows'' \<and>
   Contains (getenv windowsTerminalEnv ''TERM'') ''xterm'' \<and>
   isColorEnabled windowsTerminalEnv"
proof -
  have h1: "forceColors windowsTerminalEnv = None" "\<not> noColor windowsTerminalEnv"
    "GOOS windowsTerminalEnv = ''windows''" "\<not> isCI windowsTerminalEnv"
    by (simp_all add: windowsTerminalEnv_def windowsVars_def noColor_init_def isCI_def)
  have h2: "isTerminal windowsTerminalEnv"
    by (simp add: isTerminal_def windowsTerminalEnv_def ModeCharDevice_def)
  have h3: "Contains (getenv windowsTerminalEnv ''TERM'') ''xterm''"
    by (simp add: windowsTerminalEnv_def windowsVars_def Contains_def sublist_Cons_right)
  from isColorEnabled_exactly [of windowsTerminalEnv] h1 h2 h3
  show ?thesis by blast
qed

text \<open>
  C2. With the policy enabled \<open>colorize\<close> returns all codes in order, then the text, then
  one reset code; with the policy disabled it returns the text itself.
\<close>

theorem colorize_result:
  "(isColorEnabled e \<longrightarrow> colorize e text codes = concat codes @ text @ Reset)
   \<and> (\<not> isColorEnabled e \<longrightarrow> colorize e text codes = text)"
  by (simp add: colorize_def foldl_append_concat)

text \<open>
  The theorem of C2 at the text \<open>x\<close> and the codes \<open>A\<close>, \<open>B\<close>, once with colors forced
  on and once with colors forced off.
\<close>

theorem colorize_result_witness:
  "isColorEnabled (ForceColors True forcedOffEnv) \<and>
   colorize (ForceColors True forcedOffEnv) ''x'' [''A'', ''B''] = ''ABx'' @ Reset \<and>
   \<not> isColorEnabled forcedOffEnv \<and> colorize forcedOffEnv ''x'' [''A'', ''B''] = ''x''"
proof -
  have on: "isColorEnabled (ForceColors True forcedOffEnv)"
    by (simp add: isColorEnabled_def ForceColors_def)
  have off: "\<not> isColorEnabled forcedOffEnv"
    by (simp add: isColorEnabled_def ForceColors_def forcedOffEnv_def)
  from colorize_result [of "ForceColors True forcedOffEnv" "''x''" "[''A'', ''B'']"]
    colorize_result [of forcedOffEnv "''x''" "[''A'', ''B'']"] on off
  show ?thesis by simp
qed

section \<open>Stopping the spinner\<close>

text \<open>
  C3, as stated, fails: the length of the erasing line is computed from the spinner's own
  \<open>message\<close> field, not from the argument of \<open>Stop\<close>. A spinner labelled \<open>Hi\<close>, started and
  not yet rendered, is stopped with the 18-byte message \<open>Download complete!\<close>: it writes 12
  spaces, fewer than the 28 the claim asks for.
\<close>

theorem Stop_clear_length_counterexample:
  "running startedSpinner \<and>
   Stop startedSpinner ''Download complete!'' =
     Inr ([Fprint ([CHR 0x0D] @ replicate 12 CHR '' '' @ [CHR 0x0D]),
           CallSuccessPrint ''Download complete!''],
          startedSpinner\<lparr>running := False, stop := [True]\<rparr>) \<and>
   \<not> max (len (lastOutput startedSpinner)) (len ''Download complete!'' + 10) \<le> 12"
  using startedSpinner_fields
  by (simp add: Stop_running len_def trySend_def)

text \<open>
  C3, amended. \<open>Stop\<close> on a running spinner first writes a carriage return, then exactly
  \<open>max (len lastOutput) (len message + 10)\<close> spaces, where \<open>message\<close> is the spinner's
  field, then a carriage return; the call of the success formatter, if any, comes after.
\<close>

theorem Stop_clears_line:
  "running s \<Longrightarrow>
   \<exists>s'. Stop s msg =
     Inr (Fprint ([CHR 0x0D] @
                  replicate (nat (max (len (lastOutput s)) (len (message s) + 10))) CHR '' '' @
                  [CHR 0x0D])
            # (if msg \<noteq> [] then [CallSuccessPrint msg] else []), s')"
  by (simp add: Stop_running)

text \<open>The amended C3 at the started spinner labelled \<open>Hi\<close>: 12 spaces.\<close>

theorem Stop_clears_line_witness:
  "running startedSpinner \<and>
   (\<exists>s'. Stop startedSpinner ''done'' =
      Inr ([Fprint ([CHR 0x0D] @ replicate 12 CHR '' '' @ [CHR 0x0D]),
            CallSuccessPrint ''done''], s'))"
  using Stop_clears_line [of startedSpinner "''done''"] startedSpinner_fields
  by (simp add: len_def)

text \<open>
  C4. \<open>Stop\<close> never panics. It calls the success formatter exactly when the spinner was
  running and the message is non-empty, then once and with that message; afterwards the
  spinner is not running; on an idle spinner nothing happens and the state is unchanged.
\<close>

theorem Stop_success_formatter:
  "\<exists>evs s'. Stop s msg = Inr (evs, s') \<and>
     filter isSuccessCall evs =
       (if running s \<and> msg \<noteq> [] then [CallSuccessPrint msg] else []) \<and>
     \<not> running s' \<and>
     (\<not> running s \<longrightarrow> evs = [] \<and> s' = s)"
  by (cases "running s") (simp_all add: Stop_running Stop_idle)

text \<open>The theorem of C4 at the started spinner and the message \<open>done\<close>.\<close>

theorem Stop_success_formatter_witness:
  "running startedSpinner \<and>
   (\<exists>evs s'. Stop startedSpinner ''done'' = Inr (evs, s') \<and>
     filter isSuccessCall evs = [CallSuccessPrint ''done''] \<and> \<not> running s')"
  using Stop_success_formatter [of startedSpinner "''done''"] startedSpinner_fields
  by auto

text \<open>
  C5. \<open>StopWithError\<close> on a running spinner calls the error formatter once, with its
  message, and never the success formatter, for every message; with the empty message
  the error formatter is still called, where \<open>Stop\<close> calls no formatter at all.
\<close>

theorem StopWithError_error_formatter:
  "running s \<Longrightarrow>
   (\<exists>evs s'. StopWithError s msg = Inr (evs, s') \<and>
      filter isErrorCall evs = [CallErrorPrint msg] \<and>
      filter isSuccessCall evs = [] \<and>
      \<not> running s') \<and>
   (\<exists>evs s'. StopWithError s [] = Inr (evs, s') \<and> filter isErrorCall evs = [CallErrorPrint []]) \<and>
   (\<exists>evs s'. Stop s [] = Inr (evs, s') \<and>
      filter isSuccessCall evs = [] \<and> filter isErrorCall evs = [])"
  by (simp add: StopWithError_running Stop_running)

text \<open>The theorem of C5 at the started spinner and the message \<open>boom\<close>.\<close>

theorem StopWithError_error_formatter_witness:
  "running startedSpinner \<and>
   (\<exists>evs s'. StopWithError startedSpinner ''boom'' = Inr (evs, s') \<and>
     filter isErrorCall evs = [CallErrorPrint ''boom''] \<and> filter isSuccessCall evs = []) \<and>
   (\<exists>evs s'. StopWithError startedSpinner [] = Inr (evs, s') \<and>
     filter isErrorCall evs = [CallErrorPrint []])"
  using StopWithError_error_formatter [of startedSpinner "''boom''"] startedSpinner_fields
  by auto

section \<open>Starting the spinner\<close>

text \<open>
  C6. The claim does not hold of the code: a spinner can own two goroutines at once. The
  caller runs \<open>Start()\<close>, \<open>Stop("")\<close>, \<open>Start()\<close>, each call to its end. The first
  goroutine has entered its loop and rendered once, and does not take the stop signal
  during the sleep of \<open>Stop\<close>. The second \<open>Start\<close> finds \<open>running\<close> false and launches
  another goroutine: all three calls have returned, and two goroutines are in their loops.
\<close>

theorem Start_after_Stop_two_goroutines:
  "map_sum id looping
     (run forcedOffEnv
        [CallStart, Resume 0, TaskEnter, TaskTick,
         CallStop [], Resume 0, Resume 0, Resume 0,
         CallStart, Resume 0, TaskEnter]
        (boot hiSpinner)) = Inr 2 \<and>
   map_sum id calls
     (run forcedOffEnv
        [CallStart, Resume 0, TaskEnter, TaskTick,
         CallStop [], Resume 0, Resume 0, Resume 0,
         CallStart, Resume 0, TaskEnter]
        (boot hiSpinner)) = Inr []"
  by code_simp

section \<open>Rendering\<close>

text \<open>
  C7. The claim does not hold of the code: the index leaves the bounds once the counter
  has wrapped. \<open>current\<close> only ever grows, and Go's \<open>%\<close> keeps the sign of the dividend.
  Where \<open>int\<close> has 32 bits, a spinner with the three frames \<open>A\<close>, \<open>B\<close>, \<open>C\<close> renders
  \<open>2 ^ 31\<close> frames; the counter is then \<open>- 2 ^ 31\<close>, the index \<open>- 2\<close>, and the next render
  panics. Where \<open>int\<close> has 64 bits the same happens after \<open>2 ^ 63\<close> frames.
\<close>

theorem render_index_wraps:
  "(\<exists>evs s'. renderN forcedOffEnv (2 ^ 31) abcSpinner32 = Inr (evs, s') \<and>
      sint (current s') = - (2 ^ 31) \<and> frameIndex s' = Inr (- 2)) \<and>
   renderN forcedOffEnv (2 ^ 31 + 1) abcSpinner32 = Inl IndexOutOfRange \<and>
   renderN forcedOffEnv (2 ^ 63 + 1) abcSpinner64 = Inl IndexOutOfRange"
proof (intro conjI)
  have "\<exists>evs s'. renderN forcedOffEnv (2 ^ 31) abcSpinner32 = Inr (evs, s') \<and>
      current s' = current abcSpinner32 + of_nat (2 ^ 31) \<and> frames s' = frames abcSpinner32 \<and>
      message s' = message abcSpinner32 \<and> running s' = running abcSpinner32"
    by (rule renderN_count) (simp_all add: abcSpinner_fields)
  then obtain evs s' where
    r: "renderN forcedOffEnv (2 ^ 31) abcSpinner32 = Inr (evs, s')" and
    c: "current s' = 2 ^ 31" and f: "frames s' = [''A'', ''B'', ''C'']"
    by (auto simp: abcSpinner_fields)
  from c have "sint (current s') = - (2 ^ 31)" by simp
  with r frameIndex_wrapped32 [OF f c]
  show "\<exists>evs s'. renderN forcedOffEnv (2 ^ 31) abcSpinner32 = Inr (evs, s') \<and>
      sint (current s') = - (2 ^ 31) \<and> frameIndex s' = Inr (- 2)"
    by blast
  have "renderN forcedOffEnv 1 s' = Inl IndexOutOfRange"
    using render_wrapped32 [OF f c] by simp
  with r show "renderN forcedOffEnv (2 ^ 31 + 1) abcSpinner32 = Inl IndexOutOfRange"
    using renderN_add [of forcedOffEnv "2 ^ 31" 1 abcSpinner32] by simp
next
  have "\<exists>evs s'. renderN forcedOffEnv (2 ^ 63) abcSpinner64 = Inr (evs, s') \<and>
      current s' = current abcSpinner64 + of_nat (2 ^ 63) \<and> frames s' = frames abcSpinner64 \<and>
      message s' = message abcSpinner64 \<and> running s' = running abcSpinner64"
    by (rule renderN_count) (simp_all add: abcSpinner_fields)
  then obtain evs s' where
    r: "renderN forcedOffEnv (2 ^ 63) abcSpinner64 = Inr (evs, s')" and
    c: "current s' = 2 ^ 63" and f: "frames s' = [''A'', ''B'', ''C'']"
    by (auto simp: abcSpinner_fields)
  have "renderN forcedOffEnv 1 s' = Inl IndexOutOfRange"
    using render_wrapped64 [OF f c] by simp
  with r show "renderN forcedOffEnv (2 ^ 63 + 1) abcSpinner64 = Inl IndexOutOfRange"
    using renderN_add [of forcedOffEnv "2 ^ 63" 1 abcSpinner64] by simp
qed

section \<open>Updating the message\<close>

text \<open>
  C9. \<open>UpdateMessage\<close> replaces the \<open>message\<close> field and leaves every other field as it
  was; it is defined in every state, cannot panic and writes nothing.
\<close>

theorem UpdateMessage_frame:
  "fst (UpdateMessage s text) = [] \<and>
   message (snd (UpdateMessage s text)) = text \<and>
   frames (snd (UpdateMessage s text)) = frames s \<and>
   current (snd (UpdateMessage s text)) = current s \<and>
   color (snd (UpdateMessage s text)) = color s \<and>
   speed (snd (UpdateMessage s text)) = speed s \<and>
   running (snd (UpdateMessage s text)) = running s \<and>
   lastOutput (snd (UpdateMessage s text)) = lastOutput s \<and>
   stop (snd (UpdateMessage s text)) = stop s \<and>
   snd (UpdateMessage s text) = s\<lparr>message := text\<rparr>"
  by (simp add: UpdateMessage_def)

section \<open>Empty and non-empty frame lists\<close>

text \<open>
  C10. The claim does not hold of the code in one direction: a non-empty frame list does
  not make \<open>render\<close> well-defined. Where \<open>int\<close> has 32 bits, the spinner with the ten
  default frames renders \<open>2 ^ 31\<close> frames and panics in the next render with an index out
  of range, by the wrap-around of the counter that also breaks C7. The other direction
  holds: nothing checks the list, and \<open>render\<close> on an empty one panics with a division by
  zero.
\<close>

theorem nonempty_frames_render_panics:
  "frames loadingSpinner32 \<noteq> [] \<and>
   renderN forcedOffEnv (2 ^ 31 + 1) loadingSpinner32 = Inl IndexOutOfRange \<and>
   frames (NewSpinner ''Loading'' [WithCustomFrames []] :: 32 word Spinner) = [] \<and>
   render forcedOffEnv (NewSpinner ''Loading'' [WithCustomFrames []] :: 32 word Spinner) =
     Inl IntegerDivideByZero"
proof (intro conjI)
  show ne: "frames loadingSpinner32 \<noteq> []"
    by (simp add: loadingSpinner_fields dotsFrames_def)
  have "\<exists>evs s'. renderN forcedOffEnv (2 ^ 31) loadingSpinner32 = Inr (evs, s') \<and>
      current s' = current loadingSpinner32 + of_nat (2 ^ 31) \<and>
      frames s' = frames loadingSpinner32 \<and>
      message s' = message loadingSpinner32 \<and> running s' = running loadingSpinner32"
    using ne by (intro renderN_count) (simp_all add: loadingSpinner_fields)
  then obtain evs s' where
    r: "renderN forcedOffEnv (2 ^ 31) loadingSpinner32 = Inr (evs, s')" and
    c: "current s' = 2 ^ 31" and f: "frames s' = dotsFrames"
    by (auto simp: loadingSpinner_fields)
  have "renderN forcedOffEnv 1 s' = Inl IndexOutOfRange"
    using render_wrapped_dots [OF f c] by simp
  with r show "renderN forcedOffEnv (2 ^ 31 + 1) loadingSpinner32 = Inl IndexOutOfRange"
    using renderN_add [of forcedOffEnv "2 ^ 31" 1 loadingSpinner32] by simp
  show e: "frames (NewSpinner ''Loading'' [WithCustomFrames []] :: 32 word Spinner) = []"
    by (simp add: NewSpinner_def WithCustomFrames_def)
  show "render forcedOffEnv (NewSpinner ''Loading'' [WithCustomFrames []] :: 32 word Spinner) =
     Inl IntegerDivideByZero"
    using e by (rule render_empty_frames)
qed

end
